theory Spec2Isabelle
  imports Main "HOL-Library.Sublist" "HOL-Library.Monad_Syntax"
begin

section \<open>JavaScript values used by the middleware\<close>

text \<open>
  Header values, the origin and the user id are JavaScript strings or \<open>undefined\<close>:
  a \<open>string option\<close>, with \<open>None\<close> for \<open>undefined\<close>. In a condition such a value counts
  as true when it is defined and not the empty string.
\<close>

definition truthy :: "string option \<Rightarrow> bool" where
  "truthy v = (case v of None \<Rightarrow> False | Some s \<Rightarrow> s \<noteq> [])"

text \<open>\<open>s.startsWith(p)\<close>, \<open>s.endsWith(p)\<close> and \<open>s.substring(n)\<close>.\<close>

definition startsWith :: "string \<Rightarrow> string \<Rightarrow> bool" where
  "startsWith s p = prefix p s"

definition endsWith :: "string \<Rightarrow> string \<Rightarrow> bool" where
  "endsWith s p = suffix p s"

definition substring :: "string \<Rightarrow> nat \<Rightarrow> string" where
  "substring s n = drop n s"

text \<open>\<open>s.includes(p)\<close>: \<open>p\<close> occurs in \<open>s\<close> as a contiguous run.\<close>

fun str_includes :: "string \<Rightarrow> string \<Rightarrow> bool" where
  "str_includes [] p = (p = [])"
| "str_includes (c # cs) p = (prefix p (c # cs) \<or> str_includes cs p)"

text \<open>
  \<open>s.replace(p, r)\<close> with a string pattern: only the first occurrence of \<open>p\<close> is
  replaced, and a string without \<open>p\<close> is returned as it is.
\<close>

fun str_replace :: "string \<Rightarrow> string \<Rightarrow> string \<Rightarrow> string" where
  "str_replace [] p r = (if p = [] then r else [])"
| "str_replace (c # cs) p r =
     (if prefix p (c # cs) then r @ drop (length p) (c # cs)
      else c # str_replace cs p r)"

text \<open>
  Modelled from the spec: the class \<open>AppError\<close> of the error-handler module
  (\<open>middleware/errorHandler\<close>), which is not among the source files. A rejection
  carries a message and an explicit HTTP status and is built as
  \<open>new AppError(message, statusCode)\<close>. Everything else that can be thrown is an
  \<open>OtherError\<close>, kept with its message; \<open>error instanceof AppError\<close> tells the two
  apart.
\<close>

datatype js_error = AppError string nat | OtherError string

section \<open>Origin check (app.js)\<close>

text \<open>
  The allow-list is fixed when the process starts, from \<open>CORS_ORIGINS\<close> (split at
  commas, each entry trimmed), and is a parameter of the origin check. This is the list
  used when \<open>CORS_ORIGINS\<close> is not set.
\<close>

definition defaultOrigins :: "string list" where
  "defaultOrigins =
     [''https://mentora-agentic-ai-frontend.vercel.app'',
      ''http://localhost:3000'',
      ''http://localhost:3001'']"

text \<open>
  The body of the \<open>try\<close> block of the Vercel rule. The platform's URL constructor is a
  parameter \<open>url\<close>: \<open>url origin\<close> is the \<open>hostname\<close> of \<open>new URL(origin)\<close>, and \<open>None\<close>
  when the constructor throws. The result is \<open>Inl e\<close> when the block throws \<open>e\<close>,
  \<open>Inr True\<close> when it executes \<open>return true\<close>, and \<open>Inr False\<close> when it runs to its end.
\<close>

definition vercelTry :: "(string \<Rightarrow> string option) \<Rightarrow> string \<Rightarrow> js_error + bool" where
  "vercelTry url origin =
     (case url origin of
        None \<Rightarrow> Inl (OtherError ''Invalid URL'')
      | Some hostname \<Rightarrow>
          (let subdomain = str_replace hostname ''.vercel.app'' '''' in
           if startsWith subdomain ''mentora-agentic-ai-frontend'' \<or>
              str_includes subdomain ''mentora''
           then Inr True else Inr False))"

text \<open>
  \<open>isOriginAllowed\<close>, in the order of the source. The \<open>catch\<close> of the Vercel rule has an
  empty body, so a thrown exception and a block that ran to its end both continue with
  the localhost rule.
\<close>

definition isOriginAllowed ::
  "string list \<Rightarrow> (string \<Rightarrow> string option) \<Rightarrow> string option \<Rightarrow> bool" where
  "isOriginAllowed allowedOrigins url origin =
     (case origin of
        None \<Rightarrow> True
      | Some og \<Rightarrow>
          if og = [] then True
          else if og \<in> set allowedOrigins then True
          else if ''*'' \<in> set allowedOrigins then True
          else
            (case (if endsWith og ''.vercel.app'' then vercelTry url og else Inr False) of
               Inr True \<Rightarrow> True
             | _ \<Rightarrow>
                 if startsWith og ''http://localhost:'' \<or> startsWith og ''http://127.0.0.1:''
                 then True
                 else False))"

section \<open>Authentication middleware\<close>

text \<open>The user object of the identity provider: its id and its claims.\<close>

record supabase_user =
  user_id :: string
  user_email :: "string option"

text \<open>
  The request as the middleware sees it: the two headers it reads and the two fields it
  writes (\<open>req.userId\<close>, \<open>req.user\<close>).
\<close>

record request =
  authorization :: "string option"
  x_user_id :: "string option"
  userId :: "string option"
  user :: "supabase_user option"

text \<open>
  The awaited \<open>supabase.auth.getUser(token)\<close>: the promise rejects with an exception, or
  resolves to \<open>{ data: { user }, error }\<close>, where \<open>user\<close> and \<open>error\<close> may each be null. A
  response that cannot be destructured throws inside the \<open>try\<close> block as well, and is
  a rejection here.
\<close>

datatype getUser_result =
    Rejected js_error
  | Resolved "supabase_user option" "string option"

record env =
  NODE_ENV :: "string option"
  getUser :: "string \<Rightarrow> getUser_result"

text \<open>
  What a middleware call leaves behind: the request (mutated in place by the source),
  how many times \<open>next\<close> was called, and the exception the call ended with, if any. The
  continuation \<open>next\<close> itself is taken not to throw. The calls of the logger write to
  the log only and are left out.
\<close>

record result =
  req :: request
  nextCalls :: nat
  thrown :: "js_error option"

definition throw :: "js_error \<Rightarrow> request \<Rightarrow> result" where
  "throw e rq = \<lparr>req = rq, nextCalls = 0, thrown = Some e\<rparr>"

definition callNext :: "request \<Rightarrow> result" where
  "callNext rq = \<lparr>req = rq, nextCalls = 1, thrown = None\<rparr>"

text \<open>
  The guard \<open>authHeader && authHeader.startsWith('Bearer ')\<close> together with
  \<open>token = authHeader.substring(7)\<close>: the token when the guard holds, \<open>None\<close> otherwise.
\<close>

definition bearerToken :: "string option \<Rightarrow> string option" where
  "bearerToken authHeader =
     (case authHeader of
        None \<Rightarrow> None
      | Some a \<Rightarrow> if a \<noteq> [] \<and> startsWith a ''Bearer '' then Some (substring a 7) else None)"

text \<open>
  The regular expression
  \<^verbatim>\<open>/^[0-9a-f]{8}-[0-9a-f]{4}-[0-9a-f]{4}-[0-9a-f]{4}-[0-9a-f]{12}$/i\<close>
  as a matcher that consumes the input from the left: \<open>hexes n\<close> is \<open>[0-9a-f]{n}\<close> under
  the flag \<open>i\<close>, \<open>dash\<close> is the literal \<open>-\<close>, each returning the rest of the input, and
  the anchors demand that the match starts at the first character and leaves nothing.
\<close>

definition isHex :: "char \<Rightarrow> bool" where
  "isHex c = (c \<in> set ''0123456789abcdefABCDEF'')"

fun hexes :: "nat \<Rightarrow> string \<Rightarrow> string option" where
  "hexes 0 s = Some s"
| "hexes (Suc n) [] = None"
| "hexes (Suc n) (c # cs) = (if isHex c then hexes n cs else None)"

fun dash :: "string \<Rightarrow> string option" where
  "dash [] = None"
| "dash (c # cs) = (if c = CHR ''-'' then Some cs else None)"

definition uuidRegex_test :: "string \<Rightarrow> bool" where
  "uuidRegex_test s =
     (hexes 8 s \<bind> dash \<bind> hexes 4 \<bind> dash \<bind> hexes 4 \<bind> dash \<bind> hexes 4 \<bind> dash \<bind> hexes 12
        = Some [])"

text \<open>The body of the \<open>try\<close> block of \<open>authenticate\<close>.\<close>

definition authenticate_try :: "env \<Rightarrow> request \<Rightarrow> result" where
  "authenticate_try e rq =
     (case bearerToken (authorization rq) of
        Some token \<Rightarrow>
          (case getUser e token of
             Rejected x \<Rightarrow> throw x rq
           | Resolved u err \<Rightarrow>
               (case u of
                  None \<Rightarrow> throw (AppError ''Invalid or expired authentication token'' 401) rq
                | Some usr \<Rightarrow>
                    if err \<noteq> None
                    then throw (AppError ''Invalid or expired authentication token'' 401) rq
                    else callNext (rq\<lparr>userId := Some (user_id usr), user := Some usr\<rparr>)))
      | None \<Rightarrow>
          (case x_user_id rq of
             Some legacyUserId \<Rightarrow>
               if NODE_ENV e \<noteq> Some ''production'' \<and> legacyUserId \<noteq> []
               then
                 if \<not> uuidRegex_test legacyUserId
                 then throw (AppError ''Invalid user ID format'' 400) rq
                 else callNext (rq\<lparr>userId := Some legacyUserId\<rparr>)
               else throw (AppError ''Authentication required. Please sign in.'' 401) rq
           | None \<Rightarrow> throw (AppError ''Authentication required. Please sign in.'' 401) rq))"

text \<open>
  The \<open>catch\<close> block of \<open>authenticate\<close>: an \<open>AppError\<close> is thrown again as it is, any
  other exception is replaced by a fixed \<open>AppError\<close>.
\<close>

definition authenticate_catch :: "result \<Rightarrow> result" where
  "authenticate_catch r =
     (case thrown r of
        None \<Rightarrow> r
      | Some (AppError m s) \<Rightarrow> r
      | Some (OtherError d) \<Rightarrow> r\<lparr>thrown := Some (AppError ''Authentication failed'' 401)\<rparr>)"

definition authenticate :: "env \<Rightarrow> request \<Rightarrow> result" where
  "authenticate e rq = authenticate_catch (authenticate_try e rq)"



text \<open>
  The awaited \<open>hasValidGoogleIntegration(userId)\<close> of the database helpers
  (\<open>db/helpers/userIntegrations\<close>, not among the source files) is a parameter: it
  throws, or returns a value that the middleware only tests for truth (\<open>None\<close> is an
  absent value).
\<close>

datatype lookup_result = LookupThrew js_error | LookupReturned "bool option"

definition requireGoogleIntegration :: "(string \<Rightarrow> lookup_result) \<Rightarrow> request \<Rightarrow> result" where
  "requireGoogleIntegration hasValidGoogleIntegration rq =
     (case userId rq of
        None \<Rightarrow> throw (AppError ''Authentication required'' 401) rq
      | Some uid \<Rightarrow>
          if uid = [] then throw (AppError ''Authentication required'' 401) rq
          else
            (case hasValidGoogleIntegration uid of
               LookupThrew x \<Rightarrow> throw x rq
             | LookupReturned hasIntegration \<Rightarrow>
                 if hasIntegration \<noteq> Some True
                 then throw
                   (AppError
                     ''Google account not connected. Please connect your Google account first.''
                     403) rq
                 else callNext rq))"

section \<open>Facts about the string operations and the matcher\<close>



lemma hexes_Some:
  "hexes n s = Some r \<longleftrightarrow> (\<exists>a. s = a @ r \<and> length a = n \<and> list_all isHex a)"
proof (induction n arbitrary: s)
  case 0
  then show ?case by auto
next
  case (Suc n)
  show ?case
  proof (cases s)
    case Nil
    then show ?thesis by simp
  next
    case (Cons c cs)
    show ?thesis
    proof
      assume "hexes (Suc n) s = Some r"
      with Cons have c: "isHex c" and "hexes n cs = Some r"
        by (auto split: if_splits)
      with Suc obtain a where "cs = a @ r" "length a = n" "list_all isHex a"
        by blast
      with c Cons
      have "s = (c # a) @ r \<and> length (c # a) = Suc n \<and> list_all isHex (c # a)"
        by simp
      then show "\<exists>a. s = a @ r \<and> length a = Suc n \<and> list_all isHex a"
        by blast
    next
      assume "\<exists>a. s = a @ r \<and> length a = Suc n \<and> list_all isHex a"
      then obtain a where a: "s = a @ r" "length a = Suc n" "list_all isHex a"
        by blast
      then obtain x xs where "a = x # xs"
        by (cases a) auto
      with a Cons have "cs = xs @ r" "length xs = n" "list_all isHex xs" "isHex c"
        by auto
      with Suc [of cs] Cons show "hexes (Suc n) s = Some r"
        by auto
    qed
  qed
qed

lemma dash_Some: "dash s = Some r \<longleftrightarrow> s = CHR ''-'' # r"
  by (cases s) auto

text \<open>
  The matcher accepts exactly the strings made of five groups of 8, 4, 4, 4 and 12
  hexadecimal digits of either case, separated by single hyphens.
\<close>

lemma uuidRegex_test_groups:
  "uuidRegex_test s \<longleftrightarrow>
     (\<exists>a b c d e. s = a @ ''-'' @ b @ ''-'' @ c @ ''-'' @ d @ ''-'' @ e \<and>
        length a = 8 \<and> length b = 4 \<and> length c = 4 \<and> length d = 4 \<and> length e = 12 \<and>
        list_all isHex (a @ b @ c @ d @ e))"
  unfolding uuidRegex_test_def bind_eq_Some_conv hexes_Some dash_Some
  by (auto; blast)

lemma bearerToken_Bearer: "bearerToken (Some (''Bearer '' @ token)) = Some token"
  by (simp add: bearerToken_def startsWith_def substring_def)

section \<open>The origin check\<close>

lemma isOriginAllowed_iff:
  "isOriginAllowed allowed url (Some og) \<longleftrightarrow>
     og = [] \<or> og \<in> set allowed \<or> ''*'' \<in> set allowed \<or>
     (endsWith og ''.vercel.app'' \<and> vercelTry url og = Inr True) \<or>
     startsWith og ''http://localhost:'' \<or> startsWith og ''http://127.0.0.1:''"
  by (auto simp: isOriginAllowed_def split: sum.splits bool.splits)




text \<open>
  C1, as stated, fails: the string \<open>http://localhost:3000.vercel.app\<close> is not a URL (its
  port is not a number), the URL constructor throws inside the Vercel rule, the empty
  \<open>catch\<close> continues with the localhost rule, and that rule permits the string.
\<close>

theorem isOriginAllowed_unparseable_permitted:
  "Map.empty ''http://localhost:3000.vercel.app'' = (None :: string option) \<and>
   ''http://localhost:3000.vercel.app'' \<notin> set defaultOrigins \<and>
   ''*'' \<notin> set defaultOrigins \<and>
   vercelTry Map.empty ''http://localhost:3000.vercel.app'' = Inl (OtherError ''Invalid URL'') \<and>
   isOriginAllowed defaultOrigins Map.empty (Some ''http://localhost:3000.vercel.app'') = True"
  by (simp add: isOriginAllowed_def vercelTry_def defaultOrigins_def startsWith_def endsWith_def
      suffix_to_prefix)

text \<open>
  C1, amended. For an origin string that the URL constructor rejects, the Vercel rule
  throws and \<open>isOriginAllowed\<close> still returns a boolean: the exception is swallowed and
  the result is that of the remaining rules. The string is denied unless it is empty, is
  an entry of the allow-list, the wildcard \<open>*\<close> is in the allow-list, or it starts with
  \<open>http://localhost:\<close> or \<open>http://127.0.0.1:\<close>; in each of those cases it is permitted.
\<close>

theorem isOriginAllowed_unparseable:
  assumes "url og = None"
  shows "vercelTry url og = Inl (OtherError ''Invalid URL'') \<and>
         isOriginAllowed allowed url (Some og) =
           (og = [] \<or> og \<in> set allowed \<or> ''*'' \<in> set allowed \<or>
            startsWith og ''http://localhost:'' \<or> startsWith og ''http://127.0.0.1:'')"
  using assms by (auto simp: isOriginAllowed_iff vercelTry_def)

theorem isOriginAllowed_unparseable_witness:
  "Map.empty ''https://exa mple.vercel.app'' = (None :: string option) \<and>
   vercelTry Map.empty ''https://exa mple.vercel.app'' = Inl (OtherError ''Invalid URL'') \<and>
   isOriginAllowed defaultOrigins Map.empty (Some ''https://exa mple.vercel.app'') = False"
proof -
  have unparseable: "Map.empty ''https://exa mple.vercel.app'' = (None :: string option)"
    by simp
  from isOriginAllowed_unparseable [OF unparseable, where allowed = defaultOrigins]
  show ?thesis
    by (simp add: defaultOrigins_def startsWith_def)
qed




section \<open>The authentication middleware\<close>

lemma authenticate_rejected_other:
  assumes "bearerToken (authorization rq) = Some token"
    and "getUser e token = Rejected (OtherError d)"
  shows "authenticate e rq =
           \<lparr>req = rq, nextCalls = 0, thrown = Some (AppError ''Authentication failed'' 401)\<rparr>"
  using assms
  by (simp add: authenticate_def authenticate_try_def authenticate_catch_def throw_def)

text \<open>
  C2. In production (\<open>NODE_ENV\<close> is \<open>production\<close>), a request on which the bearer branch
  is not taken is rejected by \<open>authenticate\<close> with status 401, whatever its \<open>X-User-Id\<close>
  header holds, a well-formed UUID included: the request is left as it was and \<open>next\<close>
  is not called.
\<close>

theorem authenticate_production_rejects_legacy:
  assumes "NODE_ENV e = Some ''production''"
    and "bearerToken (authorization rq) = None"
  shows "authenticate e rq =
           \<lparr>req = rq, nextCalls = 0,
            thrown = Some (AppError ''Authentication required. Please sign in.'' 401)\<rparr>"
  using assms
  by (simp add: authenticate_def authenticate_try_def authenticate_catch_def throw_def
      split: option.splits)

theorem authenticate_production_rejects_legacy_witness:
  "uuidRegex_test ''123e4567-e89b-12d3-a456-426614174000'' \<and>
   authenticate
     \<lparr>NODE_ENV = Some ''production'', getUser = (\<lambda>t. Resolved None (Some ''invalid JWT''))\<rparr>
     \<lparr>authorization = None, x_user_id = Some ''123e4567-e89b-12d3-a456-426614174000'',
      userId = None, user = None\<rparr>
   = \<lparr>req = \<lparr>authorization = None,
              x_user_id = Some ''123e4567-e89b-12d3-a456-426614174000'',
              userId = None, user = None\<rparr>,
      nextCalls = 0,
      thrown = Some (AppError ''Authentication required. Please sign in.'' 401)\<rparr>"
proof -
  have wellformed: "uuidRegex_test ''123e4567-e89b-12d3-a456-426614174000''"
    by code_simp
  show ?thesis
    using wellformed
      authenticate_production_rejects_legacy
        [of "\<lparr>NODE_ENV = Some ''production'',
              getUser = (\<lambda>t. Resolved None (Some ''invalid JWT''))\<rparr>"
            "\<lparr>authorization = None,
              x_user_id = Some ''123e4567-e89b-12d3-a456-426614174000'',
              userId = None, user = None\<rparr>"]
    by (simp add: bearerToken_def)
qed

text \<open>
  C3. On a request with the header \<open>Authorization: Bearer <token>\<close>: when the identity
  provider returns the user \<open>U\<close> and no error, \<open>authenticate\<close> stores the id of \<open>U\<close> in
  \<open>req.userId\<close> and \<open>U\<close> in \<open>req.user\<close> and calls \<open>next\<close> once; when the provider returns
  an error, or no user, \<open>authenticate\<close> rejects with status 401, the request is left as
  it was and \<open>next\<close> is not called.
\<close>

theorem authenticate_bearer:
  assumes "authorization rq = Some (''Bearer '' @ token)"
  shows "(getUser e token = Resolved (Some U) None \<longrightarrow>
            authenticate e rq =
              \<lparr>req = rq\<lparr>userId := Some (user_id U), user := Some U\<rparr>,
               nextCalls = 1, thrown = None\<rparr>)
       \<and> ((\<exists>u x. getUser e token = Resolved u (Some x)) \<or>
          (\<exists>x. getUser e token = Resolved None x) \<longrightarrow>
            authenticate e rq =
              \<lparr>req = rq, nextCalls = 0,
               thrown = Some (AppError ''Invalid or expired authentication token'' 401)\<rparr>)"
proof -
  from assms have "bearerToken (authorization rq) = Some token"
    using bearerToken_Bearer [of token] by simp
  then show ?thesis
    by (auto simp: authenticate_def authenticate_try_def authenticate_catch_def throw_def
        callNext_def split: option.splits)
qed

theorem authenticate_bearer_witness:
  "authenticate
     \<lparr>NODE_ENV = Some ''production'',
      getUser = (\<lambda>t. if t = ''good''
                     then Resolved (Some \<lparr>user_id = ''u-1'', user_email = Some ''a@b.c''\<rparr>) None
                     else Resolved None (Some ''invalid JWT''))\<rparr>
     \<lparr>authorization = Some ''Bearer good'', x_user_id = None, userId = None, user = None\<rparr>
   = \<lparr>req = \<lparr>authorization = Some ''Bearer good'', x_user_id = None,
              userId = Some ''u-1'',
              user = Some \<lparr>user_id = ''u-1'', user_email = Some ''a@b.c''\<rparr>\<rparr>,
      nextCalls = 1, thrown = None\<rparr>
   \<and> authenticate
     \<lparr>NODE_ENV = Some ''production'',
      getUser = (\<lambda>t. if t = ''good''
                     then Resolved (Some \<lparr>user_id = ''u-1'', user_email = Some ''a@b.c''\<rparr>) None
                     else Resolved None (Some ''invalid JWT''))\<rparr>
     \<lparr>authorization = Some ''Bearer bad'', x_user_id = None, userId = None, user = None\<rparr>
   = \<lparr>req = \<lparr>authorization = Some ''Bearer bad'', x_user_id = None,
              userId = None, user = None\<rparr>,
      nextCalls = 0,
      thrown = Some (AppError ''Invalid or expired authentication token'' 401)\<rparr>"
  using
    authenticate_bearer [where token = "''good''"
      and rq = "\<lparr>authorization = Some ''Bearer good'', x_user_id = None,
               userId = None, user = None\<rparr>"
      and e = "\<lparr>NODE_ENV = Some ''production'',
              getUser = (\<lambda>t. if t = ''good''
                then Resolved (Some \<lparr>user_id = ''u-1'', user_email = Some ''a@b.c''\<rparr>) None
                else Resolved None (Some ''invalid JWT''))\<rparr>"
      and U = "\<lparr>user_id = ''u-1'', user_email = Some ''a@b.c''\<rparr>"]
    authenticate_bearer [where token = "''bad''"
      and rq = "\<lparr>authorization = Some ''Bearer bad'', x_user_id = None,
               userId = None, user = None\<rparr>"
      and e = "\<lparr>NODE_ENV = Some ''production'',
              getUser = (\<lambda>t. if t = ''good''
                then Resolved (Some \<lparr>user_id = ''u-1'', user_email = Some ''a@b.c''\<rparr>) None
                else Resolved None (Some ''invalid JWT''))\<rparr>"]
  by simp

text \<open>
  C7. An exception that is not an \<open>AppError\<close> and is thrown inside the \<open>try\<close> block of
  \<open>authenticate\<close> leaves the \<open>catch\<close> block as the fixed
  \<open>AppError('Authentication failed', 401)\<close>, whatever its own message \<open>d\<close> was; in
  particular when the identity provider call fails with such an exception,
  \<open>authenticate\<close> rejects with that fixed error, the request is left as it was and
  \<open>next\<close> is not called. The rejection does not depend on \<open>d\<close>.
\<close>

theorem authenticate_normalizes_unexpected:
  "(thrown r = Some (OtherError d) \<longrightarrow>
      authenticate_catch r = r\<lparr>thrown := Some (AppError ''Authentication failed'' 401)\<rparr>)
   \<and> (bearerToken (authorization rq) = Some token \<and> getUser e token = Rejected (OtherError d) \<longrightarrow>
      authenticate e rq =
        \<lparr>req = rq, nextCalls = 0, thrown = Some (AppError ''Authentication failed'' 401)\<rparr>)"
  using authenticate_rejected_other
  by (auto simp: authenticate_catch_def)

theorem authenticate_normalizes_unexpected_witness:
  "authenticate
     \<lparr>NODE_ENV = Some ''production'',
      getUser = (\<lambda>t. Rejected (OtherError ''connect ECONNREFUSED 10.0.0.5:443''))\<rparr>
     \<lparr>authorization = Some ''Bearer abc'', x_user_id = None, userId = None, user = None\<rparr>
   = \<lparr>req = \<lparr>authorization = Some ''Bearer abc'', x_user_id = None,
              userId = None, user = None\<rparr>,
      nextCalls = 0, thrown = Some (AppError ''Authentication failed'' 401)\<rparr>"
  using authenticate_normalizes_unexpected [where token = "''abc''"
      and d = "''connect ECONNREFUSED 10.0.0.5:443''"
      and rq = "\<lparr>authorization = Some ''Bearer abc'', x_user_id = None,
               userId = None, user = None\<rparr>"
      and e = "\<lparr>NODE_ENV = Some ''production'',
              getUser = (\<lambda>t. Rejected (OtherError ''connect ECONNREFUSED 10.0.0.5:443''))\<rparr>"]
  by (simp add: bearerToken_def startsWith_def substring_def)

text \<open>
  C8, as stated, fails: outside production, with no bearer token, an \<open>X-User-Id\<close> header
  whose value is the empty string does not match the UUID format, yet the guard
  \<open>legacyUserId\<close> of the fallback treats it as absent and the request is rejected with
  status 401, not 400.
\<close>

theorem authenticate_empty_legacy_401:
  "NODE_ENV \<lparr>NODE_ENV = Some ''development'',
             getUser = (\<lambda>t. Resolved None (Some ''invalid JWT''))\<rparr> \<noteq> Some ''production'' \<and>
   bearerToken None = None \<and>
   \<not> uuidRegex_test '''' \<and>
   authenticate
     \<lparr>NODE_ENV = Some ''development'', getUser = (\<lambda>t. Resolved None (Some ''invalid JWT''))\<rparr>
     \<lparr>authorization = None, x_user_id = Some '''', userId = None, user = None\<rparr>
   = \<lparr>req = \<lparr>authorization = None, x_user_id = Some '''', userId = None, user = None\<rparr>,
      nextCalls = 0,
      thrown = Some (AppError ''Authentication required. Please sign in.'' 401)\<rparr>"
proof -
  have "\<not> uuidRegex_test ''''"
    by code_simp
  then show ?thesis
    by (simp add: authenticate_def authenticate_try_def authenticate_catch_def throw_def
        bearerToken_def)
qed

text \<open>
  C8, amended. Outside production, a request on which the bearer branch is not taken
  and whose \<open>X-User-Id\<close> header is not empty and is not of the UUID format (five groups
  of 8, 4, 4, 4 and 12 hexadecimal digits of either case, separated by hyphens) is
  rejected by \<open>authenticate\<close> with status 400.
\<close>

theorem authenticate_invalid_uuid_400:
  assumes "NODE_ENV e \<noteq> Some ''production''"
    and "bearerToken (authorization rq) = None"
    and "x_user_id rq = Some l" and "l \<noteq> []"
    and "\<not> (\<exists>a b c d e. l = a @ ''-'' @ b @ ''-'' @ c @ ''-'' @ d @ ''-'' @ e \<and>
            length a = 8 \<and> length b = 4 \<and> length c = 4 \<and> length d = 4 \<and> length e = 12 \<and>
            list_all isHex (a @ b @ c @ d @ e))"
  shows "authenticate e rq =
           \<lparr>req = rq, nextCalls = 0, thrown = Some (AppError ''Invalid user ID format'' 400)\<rparr>"
proof -
  from assms(5) have "\<not> uuidRegex_test l"
    unfolding uuidRegex_test_groups .
  with assms(1-4) show ?thesis
    by (simp add: authenticate_def authenticate_try_def authenticate_catch_def throw_def)
qed

theorem authenticate_invalid_uuid_400_witness:
  "\<not> uuidRegex_test ''not-a-uuid'' \<and>
   authenticate
     \<lparr>NODE_ENV = Some ''development'', getUser = (\<lambda>t. Resolved None (Some ''invalid JWT''))\<rparr>
     \<lparr>authorization = None, x_user_id = Some ''not-a-uuid'', userId = None, user = None\<rparr>
   = \<lparr>req = \<lparr>authorization = None, x_user_id = Some ''not-a-uuid'',
              userId = None, user = None\<rparr>,
      nextCalls = 0, thrown = Some (AppError ''Invalid user ID format'' 400)\<rparr>"
proof -
  have no_match: "\<not> uuidRegex_test ''not-a-uuid''"
    by code_simp
  then have groups:
    "\<not> (\<exists>a b c d e. ''not-a-uuid'' = a @ ''-'' @ b @ ''-'' @ c @ ''-'' @ d @ ''-'' @ e \<and>
          length a = 8 \<and> length b = 4 \<and> length c = 4 \<and> length d = 4 \<and> length e = 12 \<and>
          list_all isHex (a @ b @ c @ d @ e))"
    unfolding uuidRegex_test_groups .
  have "authenticate
     \<lparr>NODE_ENV = Some ''development'', getUser = (\<lambda>t. Resolved None (Some ''invalid JWT''))\<rparr>
     \<lparr>authorization = None, x_user_id = Some ''not-a-uuid'', userId = None, user = None\<rparr>
   = \<lparr>req = \<lparr>authorization = None, x_user_id = Some ''not-a-uuid'',
              userId = None, user = None\<rparr>,
      nextCalls = 0, thrown = Some (AppError ''Invalid user ID format'' 400)\<rparr>"
    by (rule authenticate_invalid_uuid_400 [where l = "''not-a-uuid''", OF _ _ _ _ groups])
      (simp_all add: bearerToken_def)
  with no_match show ?thesis
    by simp
qed




section \<open>The Google integration check\<close>

text \<open>
  C5. \<open>requireGoogleIntegration\<close> on a request without a user id (undefined or empty)
  rejects with status 401; with a user id for which the lookup returns a value that is
  not true (false or absent) it rejects with status 403; with a user id for which the
  lookup returns true it calls \<open>next\<close> once and throws nothing.
\<close>

theorem requireGoogleIntegration_trichotomy:
  "(\<not> truthy (userId rq) \<longrightarrow>
      requireGoogleIntegration lookup rq =
        \<lparr>req = rq, nextCalls = 0, thrown = Some (AppError ''Authentication required'' 401)\<rparr>)
   \<and> (userId rq = Some uid \<and> uid \<noteq> [] \<and> lookup uid = LookupReturned v \<and> v \<noteq> Some True \<longrightarrow>
      requireGoogleIntegration lookup rq =
        \<lparr>req = rq, nextCalls = 0,
         thrown = Some (AppError
           ''Google account not connected. Please connect your Google account first.'' 403)\<rparr>)
   \<and> (userId rq = Some uid \<and> uid \<noteq> [] \<and> lookup uid = LookupReturned (Some True) \<longrightarrow>
      requireGoogleIntegration lookup rq = \<lparr>req = rq, nextCalls = 1, thrown = None\<rparr>)"
  by (auto simp: requireGoogleIntegration_def truthy_def throw_def callNext_def
      split: option.splits)

theorem requireGoogleIntegration_trichotomy_witness:
  "requireGoogleIntegration (\<lambda>u. LookupReturned (Some (u = ''u-1'')))
     \<lparr>authorization = None, x_user_id = None, userId = None, user = None\<rparr>
   = \<lparr>req = \<lparr>authorization = None, x_user_id = None, userId = None, user = None\<rparr>,
      nextCalls = 0, thrown = Some (AppError ''Authentication required'' 401)\<rparr>
   \<and> requireGoogleIntegration (\<lambda>u. LookupReturned (Some (u = ''u-1'')))
     \<lparr>authorization = None, x_user_id = None, userId = Some ''u-2'', user = None\<rparr>
   = \<lparr>req = \<lparr>authorization = None, x_user_id = None, userId = Some ''u-2'', user = None\<rparr>,
      nextCalls = 0,
      thrown = Some (AppError
        ''Google account not connected. Please connect your Google account first.'' 403)\<rparr>
   \<and> requireGoogleIntegration (\<lambda>u. LookupReturned (Some (u = ''u-1'')))
     \<lparr>authorization = None, x_user_id = None, userId = Some ''u-1'', user = None\<rparr>
   = \<lparr>req = \<lparr>authorization = None, x_user_id = None, userId = Some ''u-1'', user = None\<rparr>,
      nextCalls = 1, thrown = None\<rparr>"
  using
    requireGoogleIntegration_trichotomy
      [where lookup = "\<lambda>u. LookupReturned (Some (u = ''u-1''))"
        and rq = "\<lparr>authorization = None, x_user_id = None, userId = None, user = None\<rparr>"]
    requireGoogleIntegration_trichotomy
      [where lookup = "\<lambda>u. LookupReturned (Some (u = ''u-1''))"
        and rq = "\<lparr>authorization = None, x_user_id = None, userId = Some ''u-2'', user = None\<rparr>"
        and uid = "''u-2''" and v = "Some False"]
    requireGoogleIntegration_trichotomy
      [where lookup = "\<lambda>u. LookupReturned (Some (u = ''u-1''))"
        and rq = "\<lparr>authorization = None, x_user_id = None, userId = Some ''u-1'', user = None\<rparr>"
        and uid = "''u-1''"]
  by (simp add: truthy_def)

text \<open>
  C10. When the lookup called by \<open>requireGoogleIntegration\<close> throws, the middleware has no
  handler: the call ends with that same exception, the request is left as it was and
  \<open>next\<close> is not called, so the middleware makes neither its 401 nor its 403 rejection.
  \<open>authenticate\<close>, in contrast, replaces an exception of the provider call that is not
  an \<open>AppError\<close> by its fixed 401 rejection.
\<close>

theorem requireGoogleIntegration_lookup_throws:
  assumes "userId rq = Some uid" and "uid \<noteq> []" and "lookup uid = LookupThrew x"
  shows "requireGoogleIntegration lookup rq = \<lparr>req = rq, nextCalls = 0, thrown = Some x\<rparr>
       \<and> (bearerToken (authorization rq') = Some token \<and>
          getUser e token = Rejected (OtherError d) \<longrightarrow>
            thrown (authenticate e rq') = Some (AppError ''Authentication failed'' 401))"
  using assms authenticate_rejected_other [of rq' token e d]
  by (simp add: requireGoogleIntegration_def throw_def)

theorem requireGoogleIntegration_lookup_throws_witness:
  "requireGoogleIntegration (\<lambda>u. LookupThrew (OtherError ''connection terminated''))
     \<lparr>authorization = None, x_user_id = None, userId = Some ''u-1'', user = None\<rparr>
   = \<lparr>req = \<lparr>authorization = None, x_user_id = None, userId = Some ''u-1'', user = None\<rparr>,
      nextCalls = 0, thrown = Some (OtherError ''connection terminated'')\<rparr>
   \<and> thrown (authenticate
       \<lparr>NODE_ENV = Some ''production'',
        getUser = (\<lambda>t. Rejected (OtherError ''connection terminated''))\<rparr>
       \<lparr>authorization = Some ''Bearer abc'', x_user_id = None, userId = None, user = None\<rparr>)
     = Some (AppError ''Authentication failed'' 401)"
  using requireGoogleIntegration_lookup_throws
    [where lookup = "\<lambda>u. LookupThrew (OtherError ''connection terminated'')"
      and rq = "\<lparr>authorization = None, x_user_id = None, userId = Some ''u-1'', user = None\<rparr>"
      and uid = "''u-1''" and x = "OtherError ''connection terminated''"
      and rq' = "\<lparr>authorization = Some ''Bearer abc'', x_user_id = None,
                 userId = None, user = None\<rparr>"
      and token = "''abc''" and d = "''connection terminated''"
      and e = "\<lparr>NODE_ENV = Some ''production'',
               getUser = (\<lambda>t. Rejected (OtherError ''connection terminated''))\<rparr>"]
  by (simp add: bearerToken_def startsWith_def substring_def)

end
